theory Spec2Isabelle
  imports Main "HOL-Library.AList"
begin

section \<open>The OverReserve cache of the node resource topology plugin\<close>

text \<open>
  A shallow embedding of \<^verbatim>\<open>pkg/noderesourcetopology/cache/overreserve.go\<close>. Every public
  operation of the cache takes the cache's lock for its whole body, so an operation is a
  function from the cache state to the new state (and its result). Logging has no effect on
  the state and is left out. The backing object store and the pod lister are external: the
  answers they give during one call are part of the value standing for them.
\<close>

subsection \<open>External API objects\<close>

text \<open>
  Modelled from the spec: the published snapshot format (the NodeResourceTopology API type
  is not part of the sources). Per node a list of resource zones, each resource with its
  capacity, allocatable and available quantity, an embedded digest string (empty when the
  snapshot carries none) and the optional declaration of the digest's scope
  (\<open>Some True\<close>: only units with exclusive resources). Quantities are amounts, never
  negative.
\<close>

record ResourceInfo =
  ri_Name :: string
  ri_Capacity :: nat
  ri_Allocatable :: nat
  ri_Available :: nat

record Zone =
  zone_Name :: string
  zone_Resources :: "ResourceInfo list"

record NodeResourceTopology =
  nrt_Name :: string
  nrt_Zones :: "Zone list"
  nrt_Fingerprint :: string
  nrt_OnlyExclusive :: "bool option"

text \<open>
  Modelled from the spec: a workload unit as the lister returns it: namespace, name, node
  assignment and resource requests (a quantity per resource name, 0 when not requested).
  \<open>pod_Exclusive\<close> is the verdict of the external exclusivity predicate on the unit.
\<close>

record Pod =
  pod_Namespace :: string
  pod_Name :: string
  pod_NodeName :: string
  pod_Requests :: "string \<Rightarrow> nat"
  pod_Exclusive :: bool

datatype error =
  ErrNilReferences
  | ErrExternal string
  | ErrSignatureMismatch
  | ErrMalformedFingerprint

text \<open>
  The object-store client: the answer to listing every snapshot and the answer to fetching
  one by node name. The pod lister: the answer to listing every workload unit.
\<close>

record Client =
  client_List :: "error + NodeResourceTopology list"
  client_Get :: "string \<Rightarrow> error + NodeResourceTopology"

type_synonym PodLister = "error + Pod list"

text \<open>
  Modelled from the spec: the resync-method setting (its declaration is not part of the
  sources): autodetect, all resources, exclusive resources only.
\<close>

datatype CacheResyncMethod =
  CacheResyncAutodetect
  | CacheResyncAll
  | CacheResyncOnlyExclusiveResources

record NodeResourceTopologyCache =
  cfg_ResyncMethod :: "CacheResyncMethod option"

subsection \<open>Dirty-node counters\<close>

text \<open>
  Modelled from the spec: the counter set (its source file is not part of the sources): a
  per-node occurrence counter with \<open>incr(node) -> new count\<close>, \<open>delete(node)\<close>,
  \<open>isSet(node)\<close>, \<open>keys()\<close> and \<open>clone()\<close>. It is kept as an association list so that
  its keys can be enumerated; a key that is absent counts as zero when incremented.
\<close>

type_synonym counter = "(string \<times> nat) list"

definition newCounter :: counter where
  "newCounter = []"

definition Incr :: "counter \<Rightarrow> string \<Rightarrow> counter \<times> nat" where
  "Incr cnt key =
     (let v = (case map_of cnt key of None \<Rightarrow> 0 | Some c \<Rightarrow> c) + 1
      in (AList.update key v cnt, v))"

definition IsSet :: "counter \<Rightarrow> string \<Rightarrow> bool" where
  "IsSet cnt key = (case map_of cnt key of None \<Rightarrow> False | Some c \<Rightarrow> True)"

definition Delete :: "counter \<Rightarrow> string \<Rightarrow> counter" where
  "Delete cnt key = AList.delete key cnt"

definition Keys :: "counter \<Rightarrow> string list" where
  "Keys cnt = map fst cnt"

definition Clone :: "counter \<Rightarrow> counter" where
  "Clone cnt = cnt"

definition Len :: "counter \<Rightarrow> nat" where
  "Len cnt = length cnt"

subsection \<open>Topology store\<close>

text \<open>
  Modelled from the spec: the topology store (its source file is not part of the sources):
  \<open>get(node) -> snapshot-or-absent\<close>, \<open>contains(node)\<close> and \<open>replace(node, snapshot)\<close>,
  an upsert keyed by the snapshot's node name. Snapshots are values, so the copies the store
  takes and hands out are the snapshots themselves.
\<close>

type_synonym nrtStore = "string \<rightharpoonup> NodeResourceTopology"

definition newNrtStore :: "NodeResourceTopology list \<Rightarrow> nrtStore" where
  "newNrtStore items = fold (\<lambda>nrt data. data(nrt_Name nrt \<mapsto> nrt)) items Map.empty"

definition Contains :: "nrtStore \<Rightarrow> string \<Rightarrow> bool" where
  "Contains nrs nodeName = (case nrs nodeName of None \<Rightarrow> False | Some obj \<Rightarrow> True)"

definition GetNRTCopyByNodeName :: "nrtStore \<Rightarrow> string \<Rightarrow> NodeResourceTopology option" where
  "GetNRTCopyByNodeName nrs nodeName = nrs nodeName"

definition Update :: "nrtStore \<Rightarrow> NodeResourceTopology \<Rightarrow> nrtStore" where
  "Update nrs nrt = nrs(nrt_Name nrt \<mapsto> nrt)"

subsection \<open>Resource overlay store\<close>

text \<open>
  Modelled from the spec: the resource overlay entry of one node (its source file is not
  part of the sources): the accumulated charge per resource name together with the units
  (namespace, name) that are charged. Adding a unit increments the charges by the unit's
  requested quantities; removing a unit that is charged decrements them symmetrically, with
  a floor at zero, and removing an unknown or already removed unit changes nothing.
  Applying the entry to a snapshot reduces the available quantity of each resource of each
  zone by the accumulated charge of that resource, never below zero. A request names no
  zone: the charge is taken from every zone.
\<close>

record resourceStore =
  rs_charges :: "string \<Rightarrow> nat"
  rs_units :: "(string \<times> string) set"

definition newResourceStore :: resourceStore where
  "newResourceStore = \<lparr>rs_charges = (\<lambda>r. 0), rs_units = {}\<rparr>"

definition podKey :: "Pod \<Rightarrow> string \<times> string" where
  "podKey pod = (pod_Namespace pod, pod_Name pod)"

definition AddPod :: "resourceStore \<Rightarrow> Pod \<Rightarrow> resourceStore" where
  "AddPod rs pod =
     \<lparr>rs_charges = (\<lambda>r. rs_charges rs r + pod_Requests pod r),
      rs_units = insert (podKey pod) (rs_units rs)\<rparr>"

definition DeletePod :: "resourceStore \<Rightarrow> Pod \<Rightarrow> resourceStore" where
  "DeletePod rs pod =
     (if podKey pod \<in> rs_units rs
      then \<lparr>rs_charges =
              (\<lambda>r. if rs_charges rs r < pod_Requests pod r then 0
                   else rs_charges rs r - pod_Requests pod r),
            rs_units = rs_units rs - {podKey pod}\<rparr>
      else rs)"

definition chargeResource :: "(string \<Rightarrow> nat) \<Rightarrow> ResourceInfo \<Rightarrow> ResourceInfo" where
  "chargeResource qty zr =
     (if ri_Available zr < qty (ri_Name zr) then zr\<lparr>ri_Available := 0\<rparr>
      else zr\<lparr>ri_Available := ri_Available zr - qty (ri_Name zr)\<rparr>)"

definition chargeZone :: "(string \<Rightarrow> nat) \<Rightarrow> Zone \<Rightarrow> Zone" where
  "chargeZone qty zone = zone\<lparr>zone_Resources := map (chargeResource qty) (zone_Resources zone)\<rparr>"

definition UpdateNRT :: "resourceStore \<Rightarrow> NodeResourceTopology \<Rightarrow> NodeResourceTopology" where
  "UpdateNRT rs nrt = nrt\<lparr>nrt_Zones := map (chargeZone (rs_charges rs)) (nrt_Zones nrt)\<rparr>"

subsection \<open>Fingerprint reconciliation\<close>

record podData =
  Namespace :: string
  Name :: string
  HasExclusiveResources :: bool

text \<open>
  Modelled from the spec: the digest and the scope a published snapshot asks for (the
  function is not part of the sources). The digest is the snapshot's embedded one; the scope
  is the one the snapshot declares, and the configured resync method decides it when the
  snapshot declares none.
\<close>

definition podFingerprintForNodeTopology ::
    "NodeResourceTopology \<Rightarrow> CacheResyncMethod \<Rightarrow> string \<times> bool" where
  "podFingerprintForNodeTopology nrt method =
     (nrt_Fingerprint nrt,
      (case nrt_OnlyExclusive nrt of
         Some b \<Rightarrow> b
       | None \<Rightarrow> method = CacheResyncOnlyExclusiveResources))"

text \<open>
  Modelled from the spec: the comparison of the published digest with the digest computed
  over the live roster, restricted to the units with exclusive resources when the scope asks
  for it (the function is not part of the sources). The digest algorithm \<open>sign\<close> belongs to
  an external library and is a parameter. A mismatch is the only outcome besides a match.
\<close>

definition checkPodFingerprintForNode ::
    "((string \<times> string) list \<Rightarrow> string) \<Rightarrow> podData list \<Rightarrow> string \<Rightarrow> string \<Rightarrow> bool
      \<Rightarrow> error option" where
  "checkPodFingerprintForNode sign objs nodeName pfpExpected onlyExclRes =
     (let scoped = filter (\<lambda>obj. \<not> (onlyExclRes \<and> \<not> HasExclusiveResources obj)) objs;
          pfpComputed = sign (map (\<lambda>obj. (Namespace obj, Name obj)) scoped)
      in if pfpComputed = pfpExpected then None else Some ErrSignatureMismatch)"

subsection \<open>The cache\<close>

record OverReserve =
  client :: Client
  nrts :: nrtStore
  assumedResources :: "string \<rightharpoonup> resourceStore"
  nodesMaybeOverreserved :: counter
  nodesWithForeignPods :: counter
  podLister :: PodLister
  resyncMethod :: CacheResyncMethod
  isPodRelevant :: "Pod \<Rightarrow> bool"

definition getCacheResyncMethod :: "NodeResourceTopologyCache option \<Rightarrow> CacheResyncMethod" where
  "getCacheResyncMethod cfg =
     (case cfg of
        None \<Rightarrow> CacheResyncAutodetect
      | Some c \<Rightarrow> (case cfg_ResyncMethod c of
                    None \<Rightarrow> CacheResyncAutodetect
                  | Some m \<Rightarrow> m))"

definition NewOverReserve ::
    "NodeResourceTopologyCache option \<Rightarrow> Client option \<Rightarrow> PodLister option \<Rightarrow> (Pod \<Rightarrow> bool)
      \<Rightarrow> error + OverReserve" where
  "NewOverReserve cfg cl pl relevant =
     (case (cl, pl) of
        (Some c, Some l) \<Rightarrow>
          (case client_List c of
             Inl err \<Rightarrow> Inl err
           | Inr items \<Rightarrow>
               Inr \<lparr>client = c,
                    nrts = newNrtStore items,
                    assumedResources = Map.empty,
                    nodesMaybeOverreserved = newCounter,
                    nodesWithForeignPods = newCounter,
                    podLister = l,
                    resyncMethod = getCacheResyncMethod cfg,
                    isPodRelevant = relevant\<rparr>)
      | _ \<Rightarrow> Inl ErrNilReferences)"

definition GetCachedNRTCopy ::
    "OverReserve \<Rightarrow> string \<Rightarrow> Pod \<Rightarrow> NodeResourceTopology option \<times> bool" where
  "GetCachedNRTCopy ov nodeName pod =
     (if IsSet (nodesWithForeignPods ov) nodeName then (None, False)
      else
        (case GetNRTCopyByNodeName (nrts ov) nodeName of
           None \<Rightarrow> (None, True)
         | Some nrt \<Rightarrow>
             (case assumedResources ov nodeName of
                None \<Rightarrow> (Some nrt, True)
              | Some nodeAssumedResources \<Rightarrow> (Some (UpdateNRT nodeAssumedResources nrt), True))))"

definition NodeMaybeOverReserved :: "OverReserve \<Rightarrow> string \<Rightarrow> Pod \<Rightarrow> OverReserve" where
  "NodeMaybeOverReserved ov nodeName pod =
     ov\<lparr>nodesMaybeOverreserved := fst (Incr (nodesMaybeOverreserved ov) nodeName)\<rparr>"

definition NodeHasForeignPods :: "OverReserve \<Rightarrow> string \<Rightarrow> Pod \<Rightarrow> OverReserve" where
  "NodeHasForeignPods ov nodeName pod =
     (if \<not> Contains (nrts ov) nodeName then ov
      else ov\<lparr>nodesWithForeignPods := fst (Incr (nodesWithForeignPods ov) nodeName)\<rparr>)"

definition ReserveNodeResources :: "OverReserve \<Rightarrow> string \<Rightarrow> Pod \<Rightarrow> OverReserve" where
  "ReserveNodeResources ov nodeName pod =
     (let nodeAssumedResources =
            (case assumedResources ov nodeName of
               None \<Rightarrow> newResourceStore
             | Some rs \<Rightarrow> rs)
      in ov\<lparr>assumedResources := (assumedResources ov)(nodeName \<mapsto> AddPod nodeAssumedResources pod),
            nodesMaybeOverreserved := Delete (nodesMaybeOverreserved ov) nodeName\<rparr>)"

definition UnreserveNodeResources :: "OverReserve \<Rightarrow> string \<Rightarrow> Pod \<Rightarrow> OverReserve" where
  "UnreserveNodeResources ov nodeName pod =
     (case assumedResources ov nodeName of
        None \<Rightarrow> ov
      | Some nodeAssumedResources \<Rightarrow>
          ov\<lparr>assumedResources := (assumedResources ov)(nodeName \<mapsto> DeletePod nodeAssumedResources pod)\<rparr>)"

definition NodesMaybeOverReserved :: "OverReserve \<Rightarrow> string list" where
  "NodesMaybeOverReserved ov =
     (let nodes = Clone (nodesWithForeignPods ov);
          nodes = fold (\<lambda>node nodes. fst (Incr nodes node)) (Keys (nodesMaybeOverreserved ov)) nodes
      in Keys nodes)"

definition flushNode :: "NodeResourceTopology \<Rightarrow> OverReserve \<Rightarrow> OverReserve" where
  "flushNode nrt ov =
     ov\<lparr>nrts := Update (nrts ov) nrt,
        assumedResources := (assumedResources ov)(nrt_Name nrt := None),
        nodesMaybeOverreserved := Delete (nodesMaybeOverreserved ov) (nrt_Name nrt),
        nodesWithForeignPods := Delete (nodesWithForeignPods ov) (nrt_Name nrt)\<rparr>"

definition FlushNodes :: "OverReserve \<Rightarrow> NodeResourceTopology list \<Rightarrow> OverReserve" where
  "FlushNodes ov updates = fold flushNode updates ov"

definition toPodData :: "Pod \<Rightarrow> podData" where
  "toPodData pod =
     \<lparr>Namespace = pod_Namespace pod, Name = pod_Name pod,
      HasExclusiveResources = pod_Exclusive pod\<rparr>"

definition addPodData :: "(Pod \<Rightarrow> bool) \<Rightarrow> Pod \<Rightarrow> (string \<rightharpoonup> podData list) \<Rightarrow> (string \<rightharpoonup> podData list)" where
  "addPodData relevant pod nodeToObjsMap =
     (if \<not> relevant pod then nodeToObjsMap
      else
        (let nodeObjs = (case nodeToObjsMap (pod_NodeName pod) of None \<Rightarrow> [] | Some objs \<Rightarrow> objs)
         in nodeToObjsMap(pod_NodeName pod \<mapsto> nodeObjs @ [toPodData pod])))"

definition makeNodeToPodDataMap ::
    "PodLister \<Rightarrow> (Pod \<Rightarrow> bool) \<Rightarrow> (string \<rightharpoonup> podData list) \<times> error option" where
  "makeNodeToPodDataMap lister relevant =
     (case lister of
        Inl err \<Rightarrow> (Map.empty, Some err)
      | Inr pods \<Rightarrow> (fold (addPodData relevant) pods Map.empty, None))"

text \<open>
  One turn of the loop of \<open>Resync\<close> over the dirty nodes: the snapshot to flush, or
  \<open>None\<close> where the loop goes on to the next node. The loop goes on after a signature
  mismatch and after any other error of the check alike, so the two branches are one here;
  the candidate is freshly allocated before the fetch, so its test against nil never fires.
  \<open>resyncUpdates\<close> is the loop, appending to \<open>nrtUpdates\<close> in the order of the nodes.
\<close>

definition resyncNode ::
    "((string \<times> string) list \<Rightarrow> string) \<Rightarrow> OverReserve \<Rightarrow> (string \<rightharpoonup> podData list) \<Rightarrow> string
      \<Rightarrow> NodeResourceTopology option" where
  "resyncNode sign ov nodeToObjsMap nodeName =
     (case client_Get (client ov) nodeName of
        Inl err \<Rightarrow> None
      | Inr nrtCandidate \<Rightarrow>
          (case nodeToObjsMap nodeName of
             None \<Rightarrow> None
           | Some objs \<Rightarrow>
               (case podFingerprintForNodeTopology nrtCandidate (resyncMethod ov) of
                  (pfpExpected, onlyExclRes) \<Rightarrow>
                    if pfpExpected = [] then None
                    else
                      (case checkPodFingerprintForNode sign objs nodeName pfpExpected onlyExclRes of
                         Some err \<Rightarrow> None
                       | None \<Rightarrow> Some nrtCandidate))))"

definition resyncUpdates ::
    "((string \<times> string) list \<Rightarrow> string) \<Rightarrow> OverReserve \<Rightarrow> (string \<rightharpoonup> podData list) \<Rightarrow> string list
      \<Rightarrow> NodeResourceTopology list" where
  "resyncUpdates sign ov nodeToObjsMap nodeNames =
     fold (\<lambda>nodeName nrtUpdates.
             case resyncNode sign ov nodeToObjsMap nodeName of
               None \<Rightarrow> nrtUpdates
             | Some nrtCandidate \<Rightarrow> nrtUpdates @ [nrtCandidate])
          nodeNames []"

definition Resync :: "((string \<times> string) list \<Rightarrow> string) \<Rightarrow> OverReserve \<Rightarrow> OverReserve" where
  "Resync sign ov =
     (let nodeNames = NodesMaybeOverReserved ov
      in if length nodeNames = 0 then ov
         else
           (case makeNodeToPodDataMap (podLister ov) (isPodRelevant ov) of
              (nodeToObjsMap, Some err) \<Rightarrow> ov
            | (nodeToObjsMap, None) \<Rightarrow>
                FlushNodes ov (resyncUpdates sign ov nodeToObjsMap nodeNames)))"

definition PostBind :: "OverReserve \<Rightarrow> string \<Rightarrow> Pod \<Rightarrow> OverReserve" where
  "PostBind ov nodeName pod = ov"

subsection \<open>Notions of the specification\<close>

text \<open>The count a counter holds for a node; a node that is not set counts as zero.\<close>

definition countOf :: "counter \<Rightarrow> string \<Rightarrow> nat" where
  "countOf cnt key = (case map_of cnt key of None \<Rightarrow> 0 | Some c \<Rightarrow> c)"

text \<open>The charge a node's overlay entry holds for a resource; none without an entry.\<close>

definition chargedQuantity :: "OverReserve \<Rightarrow> string \<Rightarrow> string \<Rightarrow> nat" where
  "chargedQuantity ov nodeName r =
     (case assumedResources ov nodeName of None \<Rightarrow> 0 | Some rs \<Rightarrow> rs_charges rs r)"

text \<open>The units with a reservation outstanding on a node, as its overlay entry records them.\<close>

definition outstandingUnits :: "OverReserve \<Rightarrow> string \<Rightarrow> (string \<times> string) set" where
  "outstandingUnits ov nodeName =
     (case assumedResources ov nodeName of None \<Rightarrow> {} | Some rs \<Rightarrow> rs_units rs)"

text \<open>The available quantities of a snapshot, zone by zone.\<close>

definition availableByZone :: "NodeResourceTopology \<Rightarrow> (string \<times> nat) list list" where
  "availableByZone nrt =
     map (\<lambda>zone. map (\<lambda>zr. (ri_Name zr, ri_Available zr)) (zone_Resources zone)) (nrt_Zones nrt)"

text \<open>
  The live roster of a node, in the words of the specification: the workload units the
  lister returned that pass the relevance predicate and are assigned to the node.
\<close>

definition liveRoster :: "(Pod \<Rightarrow> bool) \<Rightarrow> Pod list \<Rightarrow> string \<Rightarrow> podData list" where
  "liveRoster relevant pods nodeName =
     map toPodData (filter (\<lambda>pod. relevant pod \<and> pod_NodeName pod = nodeName) pods)"

text \<open>
  The published snapshot of a node that a resync accepts, in the words of the
  specification: the listing of the units succeeds, the fetch of the node's snapshot
  succeeds, the node has a roster, the snapshot carries a digest, and the digest computed
  over the roster matches it. \<open>None\<close> when any of these fails.
\<close>

definition matchingSnapshot ::
    "((string \<times> string) list \<Rightarrow> string) \<Rightarrow> OverReserve \<Rightarrow> string \<Rightarrow> NodeResourceTopology option" where
  "matchingSnapshot sign ov nodeName =
     (case podLister ov of
        Inl err \<Rightarrow> None
      | Inr pods \<Rightarrow>
          (case client_Get (client ov) nodeName of
             Inl err \<Rightarrow> None
           | Inr snapshot \<Rightarrow>
               (let roster = liveRoster (isPodRelevant ov) pods nodeName;
                    digest = fst (podFingerprintForNodeTopology snapshot (resyncMethod ov));
                    scope = snd (podFingerprintForNodeTopology snapshot (resyncMethod ov))
                in if roster = [] then None
                   else if digest = [] then None
                   else if checkPodFingerprintForNode sign roster nodeName digest scope = None
                   then Some snapshot
                   else None)))"

text \<open>The snapshots one run of \<open>Resync\<close> hands to \<open>FlushNodes\<close> (none when it returns early).\<close>

definition resyncPending ::
    "((string \<times> string) list \<Rightarrow> string) \<Rightarrow> OverReserve \<Rightarrow> NodeResourceTopology list" where
  "resyncPending sign ov =
     (if NodesMaybeOverReserved ov = [] then []
      else
        (case makeNodeToPodDataMap (podLister ov) (isPodRelevant ov) of
           (nodeToObjsMap, Some err) \<Rightarrow> []
         | (nodeToObjsMap, None) \<Rightarrow>
             resyncUpdates sign ov nodeToObjsMap (NodesMaybeOverReserved ov)))"

subsection \<open>Sequences of calls\<close>

text \<open>
  The public operations as calls. A call of \<open>Resync\<close> carries the answers the object store
  and the pod lister give while it runs: the outside world changes between calls.
\<close>

datatype call =
  CallGetCachedNRTCopy string Pod
  | CallNodeMaybeOverReserved string Pod
  | CallNodeHasForeignPods string Pod
  | CallReserveNodeResources string Pod
  | CallUnreserveNodeResources string Pod
  | CallFlushNodes "NodeResourceTopology list"
  | CallResync "(string \<times> string) list \<Rightarrow> string" Client PodLister
  | CallPostBind string Pod

fun applyCall :: "call \<Rightarrow> OverReserve \<Rightarrow> OverReserve" where
  "applyCall (CallGetCachedNRTCopy nodeName pod) ov = ov"
| "applyCall (CallNodeMaybeOverReserved nodeName pod) ov = NodeMaybeOverReserved ov nodeName pod"
| "applyCall (CallNodeHasForeignPods nodeName pod) ov = NodeHasForeignPods ov nodeName pod"
| "applyCall (CallReserveNodeResources nodeName pod) ov = ReserveNodeResources ov nodeName pod"
| "applyCall (CallUnreserveNodeResources nodeName pod) ov = UnreserveNodeResources ov nodeName pod"
| "applyCall (CallFlushNodes updates) ov = FlushNodes ov updates"
| "applyCall (CallResync sign c l) ov = Resync sign (ov\<lparr>client := c, podLister := l\<rparr>)"
| "applyCall (CallPostBind nodeName pod) ov = PostBind ov nodeName pod"

text \<open>The node names a call flushes when it is made in a given state.\<close>

fun flushedBy :: "call \<Rightarrow> OverReserve \<Rightarrow> string set" where
  "flushedBy (CallFlushNodes updates) ov = nrt_Name ` set updates"
| "flushedBy (CallResync sign c l) ov =
     nrt_Name ` set (resyncPending sign (ov\<lparr>client := c, podLister := l\<rparr>))"
| "flushedBy other ov = {}"

text \<open>
  The nodes for which \<open>ReserveNodeResources\<close> was called since they were last flushed,
  after one more call.
\<close>

fun reservedAfter :: "call \<Rightarrow> OverReserve \<Rightarrow> string set \<Rightarrow> string set" where
  "reservedAfter (CallReserveNodeResources nodeName pod) ov reserved = insert nodeName reserved"
| "reservedAfter other ov reserved = reserved - flushedBy other ov"

fun runCalls :: "call list \<Rightarrow> OverReserve \<times> string set \<Rightarrow> OverReserve \<times> string set" where
  "runCalls [] s = s"
| "runCalls (c # cs) (ov, reserved) = runCalls cs (applyCall c ov, reservedAfter c ov reserved)"

subsection \<open>A small cluster\<close>

text \<open>
  Node \<open>n1\<close> with two zones holding 6 and 2 available cpus; unit \<open>a\<close> asks for 4 cpus and
  unit \<open>b\<close> for 1. The published digest of \<open>n1\<close> is the one over the roster \<open>a, b\<close>.
\<close>

definition cpu :: "nat \<Rightarrow> ResourceInfo" where
  "cpu n = \<lparr>ri_Name = ''cpu'', ri_Capacity = 8, ri_Allocatable = 8, ri_Available = n\<rparr>"

definition snapshot1 :: NodeResourceTopology where
  "snapshot1 =
     \<lparr>nrt_Name = ''n1'',
      nrt_Zones = [\<lparr>zone_Name = ''node-0'', zone_Resources = [cpu 6]\<rparr>,
                   \<lparr>zone_Name = ''node-1'', zone_Resources = [cpu 2]\<rparr>],
      nrt_Fingerprint = ''a;b;'',
      nrt_OnlyExclusive = None\<rparr>"

definition unit :: "string \<Rightarrow> nat \<Rightarrow> Pod" where
  "unit n q =
     \<lparr>pod_Namespace = ''default'', pod_Name = n, pod_NodeName = ''n1'',
      pod_Requests = (\<lambda>r. if r = ''cpu'' then q else 0), pod_Exclusive = False\<rparr>"

definition unitA :: Pod where
  "unitA = unit ''a'' 4"

definition unitB :: Pod where
  "unitB = unit ''b'' 1"

definition unitC :: Pod where
  "unitC = unit ''c'' 1"

definition signNames :: "(string \<times> string) list \<Rightarrow> string" where
  "signNames ids = concat (map (\<lambda>(ns, n). n @ '';'') ids)"

definition store1 :: Client where
  "store1 =
     \<lparr>client_List = Inr [snapshot1],
      client_Get = (\<lambda>nodeName. if nodeName = ''n1'' then Inr snapshot1
                                else Inl (ErrExternal ''not found''))\<rparr>"

definition cache1 :: OverReserve where
  "cache1 =
     \<lparr>client = store1,
      nrts = [''n1'' \<mapsto> snapshot1],
      assumedResources = Map.empty,
      nodesMaybeOverreserved = [],
      nodesWithForeignPods = [],
      podLister = Inr [unitA, unitB],
      resyncMethod = CacheResyncAutodetect,
      isPodRelevant = (\<lambda>pod. True)\<rparr>"

text \<open>
  States of the small cluster: \<open>n1\<close> flagged as having foreign units; \<open>n1\<close> charged
  with unit \<open>b\<close>; \<open>n1\<close> charged with unit \<open>a\<close> and marked as maybe over-reserved, with
  the lister returning the roster \<open>a, b\<close>, the roster \<open>a, b, c\<close>, or failing; and the two
  nodes \<open>n1\<close> and \<open>n2\<close> both marked as maybe over-reserved.
\<close>

definition foreign1 :: OverReserve where
  "foreign1 = NodeHasForeignPods cache1 ''n1'' unitC"

definition busy1 :: OverReserve where
  "busy1 = ReserveNodeResources cache1 ''n1'' unitB"

definition dirty1 :: OverReserve where
  "dirty1 = NodeMaybeOverReserved (ReserveNodeResources cache1 ''n1'' unitA) ''n1'' unitB"

definition dirty2 :: OverReserve where
  "dirty2 = dirty1\<lparr>podLister := Inr [unitA, unitB, unitC]\<rparr>"

definition dirty3 :: OverReserve where
  "dirty3 = dirty1\<lparr>podLister := Inl (ErrExternal ''lister down'')\<rparr>"

definition dirty4 :: OverReserve where
  "dirty4 = NodeMaybeOverReserved (NodeMaybeOverReserved cache1 ''n1'' unitA) ''n2'' unitA"

section \<open>Counters and the list of dirty nodes\<close>

lemma map_of_Delete: "map_of (Delete cnt key) = (map_of cnt)(key := None)"
  by (simp add: Delete_def delete_conv')

lemma map_of_Incr: "map_of (fst (Incr cnt key)) = (map_of cnt)(key \<mapsto> countOf cnt key + 1)"
  by (simp add: Incr_def countOf_def update_conv')

lemma IsSet_iff: "IsSet cnt key \<longleftrightarrow> map_of cnt key \<noteq> None"
  by (simp add: IsSet_def split: option.splits)

lemma IsSet_Keys: "IsSet cnt key \<longleftrightarrow> key \<in> set (Keys cnt)"
  by (simp add: IsSet_iff Keys_def map_of_eq_None_iff)

lemma Keys_Incr: "set (Keys (fst (Incr cnt key))) = insert key (set (Keys cnt))"
  by (simp add: Incr_def Keys_def dom_update)

lemma Keys_fold_Incr:
  "set (Keys (fold (\<lambda>node nodes. fst (Incr nodes node)) ks cnt)) = set ks \<union> set (Keys cnt)"
  by (induction ks arbitrary: cnt) (auto simp: Keys_Incr)

lemma set_NodesMaybeOverReserved:
  "set (NodesMaybeOverReserved ov) =
     set (Keys (nodesWithForeignPods ov)) \<union> set (Keys (nodesMaybeOverreserved ov))"
  by (auto simp: NodesMaybeOverReserved_def Clone_def Keys_fold_Incr)

section \<open>Reading the cache\<close>

lemma UpdateNRT_no_charges: "UpdateNRT newResourceStore nrt = nrt"
proof -
  have r: "chargeResource (\<lambda>r. 0) = (\<lambda>zr. zr)"
    by (rule ext) (simp add: chargeResource_def)
  have z: "chargeZone (\<lambda>r. 0) = (\<lambda>zone. zone)"
    by (rule ext) (simp add: chargeZone_def r)
  show ?thesis
    by (simp add: UpdateNRT_def newResourceStore_def z)
qed

text \<open>
  C1: \<open>GetCachedNRTCopy\<close> answers \<open>(nil, false)\<close> for a node flagged as having foreign
  workload units; \<open>(nil, true)\<close> for a node that is not flagged and has no snapshot in the
  topology store; and otherwise the stored snapshot with the charges of the node's overlay
  entry applied (the snapshot itself when the node has no overlay entry, which is the
  snapshot with no charge applied), together with \<open>true\<close>.
\<close>

theorem GetCachedNRTCopy_cases:
  "(IsSet (nodesWithForeignPods ov) nodeName \<longrightarrow>
      GetCachedNRTCopy ov nodeName pod = (None, False)) \<and>
   (\<not> IsSet (nodesWithForeignPods ov) nodeName \<and> nrts ov nodeName = None \<longrightarrow>
      GetCachedNRTCopy ov nodeName pod = (None, True)) \<and>
   (\<not> IsSet (nodesWithForeignPods ov) nodeName \<and> nrts ov nodeName = Some nrt \<longrightarrow>
      GetCachedNRTCopy ov nodeName pod =
        (Some (UpdateNRT (case assumedResources ov nodeName of
                            None \<Rightarrow> newResourceStore
                          | Some rs \<Rightarrow> rs) nrt), True))"
  by (simp add: GetCachedNRTCopy_def GetNRTCopyByNodeName_def UpdateNRT_no_charges
      split: option.splits)

theorem GetCachedNRTCopy_cases_witness:
  "IsSet (nodesWithForeignPods (NodeHasForeignPods cache1 ''n1'' unitC)) ''n1'' \<and>
   GetCachedNRTCopy (NodeHasForeignPods cache1 ''n1'' unitC) ''n1'' unitA = (None, False) \<and>
   \<not> IsSet (nodesWithForeignPods cache1) ''n2'' \<and> nrts cache1 ''n2'' = None \<and>
   GetCachedNRTCopy cache1 ''n2'' unitA = (None, True) \<and>
   \<not> IsSet (nodesWithForeignPods cache1) ''n1'' \<and> nrts cache1 ''n1'' = Some snapshot1 \<and>
   GetCachedNRTCopy cache1 ''n1'' unitA = (Some (UpdateNRT newResourceStore snapshot1), True)"
  using GetCachedNRTCopy_cases [of "NodeHasForeignPods cache1 ''n1'' unitC" "''n1''" unitA snapshot1]
    GetCachedNRTCopy_cases [of cache1 "''n2''" unitA snapshot1]
    GetCachedNRTCopy_cases [of cache1 "''n1''" unitA snapshot1]
  by (simp add: cache1_def NodeHasForeignPods_def Contains_def Incr_def IsSet_def)

section \<open>Marking nodes\<close>

text \<open>
  C8: \<open>NodeHasForeignPods\<close> increments the counter of nodes with foreign workload units
  for a node exactly when the topology store holds a snapshot for the node; without a
  snapshot the call is ignored and the whole cache state stays as it was.
\<close>

theorem NodeHasForeignPods_guarded:
  "(nrts ov nodeName \<noteq> None \<longrightarrow>
      countOf (nodesWithForeignPods (NodeHasForeignPods ov nodeName pod)) nodeName =
        countOf (nodesWithForeignPods ov) nodeName + 1 \<and>
      IsSet (nodesWithForeignPods (NodeHasForeignPods ov nodeName pod)) nodeName) \<and>
   (nrts ov nodeName = None \<longrightarrow> NodeHasForeignPods ov nodeName pod = ov)"
  by (auto simp: NodeHasForeignPods_def Contains_def countOf_def IsSet_iff
      map_of_Incr[unfolded countOf_def] split: option.splits)

theorem NodeHasForeignPods_guarded_witness:
  "nrts cache1 ''n1'' \<noteq> None \<and>
   countOf (nodesWithForeignPods cache1) ''n1'' = 0 \<and>
   countOf (nodesWithForeignPods (NodeHasForeignPods cache1 ''n1'' unitC)) ''n1'' = 1 \<and>
   nrts cache1 ''n2'' = None \<and> NodeHasForeignPods cache1 ''n2'' unitC = cache1"
proof -
  have a: "nrts cache1 ''n1'' \<noteq> None" and b: "nrts cache1 ''n2'' = None"
    and c: "countOf (nodesWithForeignPods cache1) ''n1'' = 0"
    by (simp_all add: cache1_def countOf_def)
  show ?thesis
    using a b c NodeHasForeignPods_guarded [of cache1 "''n1''" unitC]
      NodeHasForeignPods_guarded [of cache1 "''n2''" unitC]
    by simp
qed

text \<open>
  C10: \<open>NodeMaybeOverReserved\<close> increments the counter of possibly over-reserved nodes
  whatever the topology store holds: it leaves the store alone and asks nothing of it, so a
  node the store has never seen is in the list of dirty nodes \<open>NodesMaybeOverReserved\<close>
  returns afterwards.
\<close>

theorem NodeMaybeOverReserved_unconditional:
  "countOf (nodesMaybeOverreserved (NodeMaybeOverReserved ov nodeName pod)) nodeName =
     countOf (nodesMaybeOverreserved ov) nodeName + 1 \<and>
   nrts (NodeMaybeOverReserved ov nodeName pod) = nrts ov \<and>
   nodeName \<in> set (NodesMaybeOverReserved (NodeMaybeOverReserved ov nodeName pod))"
  by (simp add: set_NodesMaybeOverReserved NodeMaybeOverReserved_def Keys_Incr countOf_def map_of_Incr[unfolded countOf_def])

theorem NodeMaybeOverReserved_unconditional_witness:
  "nrts cache1 ''n9'' = None \<and>
   ''n9'' \<in> set (NodesMaybeOverReserved (NodeMaybeOverReserved cache1 ''n9'' unitA))"
proof -
  have a: "nrts cache1 ''n9'' = None" by (simp add: cache1_def)
  show ?thesis
    using a NodeMaybeOverReserved_unconditional [of cache1 "''n9''" unitA] by simp
qed

section \<open>Reserving and unreserving\<close>

text \<open>
  C7: \<open>ReserveNodeResources\<close> deletes the node's entry of the counter of possibly
  over-reserved nodes, leaves the entries of that counter for every other node as they
  were, and leaves the counter of nodes with foreign workload units as it was.
\<close>

theorem Reserve_counters:
  "\<not> IsSet (nodesMaybeOverreserved (ReserveNodeResources ov nodeName pod)) nodeName \<and>
   (\<forall>other. other \<noteq> nodeName \<longrightarrow>
      map_of (nodesMaybeOverreserved (ReserveNodeResources ov nodeName pod)) other =
      map_of (nodesMaybeOverreserved ov) other) \<and>
   nodesWithForeignPods (ReserveNodeResources ov nodeName pod) = nodesWithForeignPods ov"
  by (simp add: ReserveNodeResources_def Let_def IsSet_iff map_of_Delete)

theorem Reserve_counters_witness:
  "IsSet (nodesMaybeOverreserved dirty4) ''n1'' \<and>
   \<not> IsSet (nodesMaybeOverreserved (ReserveNodeResources dirty4 ''n1'' unitA)) ''n1'' \<and>
   map_of (nodesMaybeOverreserved (ReserveNodeResources dirty4 ''n1'' unitA)) ''n2'' = Some 1 \<and>
   nodesWithForeignPods (ReserveNodeResources dirty4 ''n1'' unitA) = nodesWithForeignPods dirty4"
proof -
  have a: "IsSet (nodesMaybeOverreserved dirty4) ''n1''"
    by (simp add: dirty4_def NodeMaybeOverReserved_def cache1_def Incr_def IsSet_def)
  have b: "map_of (nodesMaybeOverreserved dirty4) ''n2'' = Some 1"
    by (simp add: dirty4_def NodeMaybeOverReserved_def cache1_def Incr_def)
  show ?thesis
    using a b Reserve_counters [of dirty4 "''n1''" unitA] by simp
qed

text \<open>
  C6: \<open>UnreserveNodeResources\<close> for a node without an overlay entry returns the cache
  state it was given: no entry is created and no node's snapshot, overlay or counter
  changes. The function is total, so there is no failure either.
\<close>

theorem Unreserve_without_entry:
  "assumedResources ov nodeName = None \<Longrightarrow> UnreserveNodeResources ov nodeName pod = ov"
  by (simp add: UnreserveNodeResources_def)

theorem Unreserve_without_entry_witness:
  "assumedResources cache1 ''n1'' = None \<and> UnreserveNodeResources cache1 ''n1'' unitA = cache1"
proof -
  have a: "assumedResources cache1 ''n1'' = None" by (simp add: cache1_def)
  show ?thesis using a Unreserve_without_entry [OF a, of unitA] by simp
qed

lemma chargeResource_update:
  "chargeResource qty zr =
     zr\<lparr>ri_Available := (if ri_Available zr < qty (ri_Name zr) then 0
                          else ri_Available zr - qty (ri_Name zr))\<rparr>"
  by (simp add: chargeResource_def)

lemma charges_after_Reserve:
  "rs_charges (the (assumedResources (ReserveNodeResources ov nodeName pod) nodeName)) =
     (\<lambda>r. chargedQuantity ov nodeName r + pod_Requests pod r)"
  by (simp add: ReserveNodeResources_def chargedQuantity_def AddPod_def newResourceStore_def
      Let_def split: option.splits)

lemma Reserve_then_copy_unflagged:
  assumes "nrts ov nodeName = Some snapshot"
    and "\<not> IsSet (nodesWithForeignPods ov) nodeName"
  shows "GetCachedNRTCopy (ReserveNodeResources ov nodeName pod) nodeName reader =
     (Some (snapshot\<lparr>nrt_Zones :=
        map (\<lambda>zone. zone\<lparr>zone_Resources :=
          map (\<lambda>zr. zr\<lparr>ri_Available :=
                 (if ri_Available zr <
                     chargedQuantity ov nodeName (ri_Name zr) + pod_Requests pod (ri_Name zr)
                  then 0
                  else ri_Available zr -
                     (chargedQuantity ov nodeName (ri_Name zr) + pod_Requests pod (ri_Name zr)))\<rparr>)
            (zone_Resources zone)\<rparr>)
          (nrt_Zones snapshot)\<rparr>), True)"
proof -
  have "GetCachedNRTCopy (ReserveNodeResources ov nodeName pod) nodeName reader =
      (Some (UpdateNRT (the (assumedResources (ReserveNodeResources ov nodeName pod) nodeName))
         snapshot), True)"
    using assms
    by (simp add: GetCachedNRTCopy_def GetNRTCopyByNodeName_def ReserveNodeResources_def Let_def)
  then show ?thesis
    by (simp add: UpdateNRT_def charges_after_Reserve chargeZone_def chargeResource_update)
qed

lemma Reserve_then_copy_flagged:
  assumes "IsSet (nodesWithForeignPods ov) nodeName"
  shows "GetCachedNRTCopy (ReserveNodeResources ov nodeName pod) nodeName reader = (None, False)"
  using assms by (simp add: GetCachedNRTCopy_def ReserveNodeResources_def Let_def)

text \<open>
  C3, as amended: for a node with a stored snapshot that is not flagged as having foreign
  workload units, \<open>ReserveNodeResources\<close> followed by \<open>GetCachedNRTCopy\<close> yields the
  stored snapshot in which the available quantity of every resource of every zone is
  reduced by the charge the node's overlay entry already held for that resource plus the
  unit's requested quantity, and is zero where that sum exceeds the stored quantity. For a
  node that is flagged as having foreign workload units the two calls yield \<open>(nil, false)\<close>.
\<close>

theorem Reserve_then_copy:
  "(nrts ov nodeName = Some snapshot \<and> \<not> IsSet (nodesWithForeignPods ov) nodeName \<longrightarrow>
      GetCachedNRTCopy (ReserveNodeResources ov nodeName pod) nodeName reader =
        (Some (snapshot\<lparr>nrt_Zones :=
           map (\<lambda>zone. zone\<lparr>zone_Resources :=
             map (\<lambda>zr. zr\<lparr>ri_Available :=
                    (if ri_Available zr <
                        chargedQuantity ov nodeName (ri_Name zr) + pod_Requests pod (ri_Name zr)
                     then 0
                     else ri_Available zr -
                        (chargedQuantity ov nodeName (ri_Name zr) + pod_Requests pod (ri_Name zr)))\<rparr>)
               (zone_Resources zone)\<rparr>)
             (nrt_Zones snapshot)\<rparr>), True)) \<and>
   (IsSet (nodesWithForeignPods ov) nodeName \<longrightarrow>
      GetCachedNRTCopy (ReserveNodeResources ov nodeName pod) nodeName reader = (None, False))"
proof (intro conjI impI)
  assume "nrts ov nodeName = Some snapshot \<and> \<not> IsSet (nodesWithForeignPods ov) nodeName"
  then show "GetCachedNRTCopy (ReserveNodeResources ov nodeName pod) nodeName reader =
        (Some (snapshot\<lparr>nrt_Zones :=
           map (\<lambda>zone. zone\<lparr>zone_Resources :=
             map (\<lambda>zr. zr\<lparr>ri_Available :=
                    (if ri_Available zr <
                        chargedQuantity ov nodeName (ri_Name zr) + pod_Requests pod (ri_Name zr)
                     then 0
                     else ri_Available zr -
                        (chargedQuantity ov nodeName (ri_Name zr) + pod_Requests pod (ri_Name zr)))\<rparr>)
               (zone_Resources zone)\<rparr>)
             (nrt_Zones snapshot)\<rparr>), True)"
    using Reserve_then_copy_unflagged [of ov nodeName snapshot pod reader] by blast
next
  assume "IsSet (nodesWithForeignPods ov) nodeName"
  then show "GetCachedNRTCopy (ReserveNodeResources ov nodeName pod) nodeName reader = (None, False)"
    by (rule Reserve_then_copy_flagged)
qed

theorem Reserve_then_copy_witness:
  "nrts busy1 ''n1'' = Some snapshot1 \<and> \<not> IsSet (nodesWithForeignPods busy1) ''n1'' \<and>
   chargedQuantity busy1 ''n1'' ''cpu'' = 1 \<and> pod_Requests unitA ''cpu'' = 4 \<and>
   availableByZone snapshot1 = [[(''cpu'', 6)], [(''cpu'', 2)]] \<and>
   map_option availableByZone
     (fst (GetCachedNRTCopy (ReserveNodeResources busy1 ''n1'' unitA) ''n1'' unitA)) =
     Some [[(''cpu'', 1)], [(''cpu'', 0)]] \<and>
   IsSet (nodesWithForeignPods foreign1) ''n1'' \<and>
   GetCachedNRTCopy (ReserveNodeResources foreign1 ''n1'' unitA) ''n1'' unitA = (None, False)"
proof -
  have a: "nrts busy1 ''n1'' = Some snapshot1"
    by (simp add: busy1_def cache1_def ReserveNodeResources_def Let_def)
  have b: "\<not> IsSet (nodesWithForeignPods busy1) ''n1''"
    by (simp add: busy1_def cache1_def ReserveNodeResources_def Let_def IsSet_def)
  have c: "chargedQuantity busy1 ''n1'' ''cpu'' = 1"
    by (simp add: busy1_def cache1_def ReserveNodeResources_def Let_def chargedQuantity_def
        AddPod_def newResourceStore_def unitB_def unit_def)
  have d: "pod_Requests unitA ''cpu'' = 4"
    by (simp add: unitA_def unit_def)
  have e: "IsSet (nodesWithForeignPods foreign1) ''n1''"
    by (simp add: foreign1_def NodeHasForeignPods_def Contains_def cache1_def Incr_def IsSet_def)
  have f: "GetCachedNRTCopy (ReserveNodeResources busy1 ''n1'' unitA) ''n1'' unitA =
      (Some (snapshot1\<lparr>nrt_Zones :=
         map (\<lambda>zone. zone\<lparr>zone_Resources :=
           map (\<lambda>zr. zr\<lparr>ri_Available :=
                  (if ri_Available zr <
                      chargedQuantity busy1 ''n1'' (ri_Name zr) + pod_Requests unitA (ri_Name zr)
                   then 0
                   else ri_Available zr -
                      (chargedQuantity busy1 ''n1'' (ri_Name zr) + pod_Requests unitA (ri_Name zr)))\<rparr>)
             (zone_Resources zone)\<rparr>)
           (nrt_Zones snapshot1)\<rparr>), True)"
    using a b Reserve_then_copy [of busy1 "''n1''" snapshot1 unitA unitA] by blast
  have g: "GetCachedNRTCopy (ReserveNodeResources foreign1 ''n1'' unitA) ''n1'' unitA = (None, False)"
    using e Reserve_then_copy [of foreign1 "''n1''" snapshot1 unitA unitA] by blast
  show ?thesis
    using a b c d e g f
    by (simp add: availableByZone_def snapshot1_def cpu_def)
qed

text \<open>
  The claim as first stated fails twice. On a node flagged as having foreign units the copy
  is withheld after the reservation. On a node that already carries the charge of unit
  \<open>b\<close> (1 cpu), reserving unit \<open>a\<close> (4 cpus) leaves 1 and 0 cpus of the stored 6 and 2,
  not the 2 and 0 that the stored quantities minus the request of \<open>a\<close> alone would give.
\<close>

theorem Reserve_then_copy_counterexample:
  "nrts foreign1 ''n1'' = Some snapshot1 \<and>
   GetCachedNRTCopy (ReserveNodeResources foreign1 ''n1'' unitA) ''n1'' unitA = (None, False) \<and>
   nrts busy1 ''n1'' = Some snapshot1 \<and>
   availableByZone snapshot1 = [[(''cpu'', 6)], [(''cpu'', 2)]] \<and>
   pod_Requests unitA ''cpu'' = 4 \<and>
   map_option availableByZone
     (fst (GetCachedNRTCopy (ReserveNodeResources busy1 ''n1'' unitA) ''n1'' unitA)) =
     Some [[(''cpu'', 1)], [(''cpu'', 0)]]"
  by (simp add: foreign1_def busy1_def cache1_def NodeHasForeignPods_def Contains_def Incr_def
      ReserveNodeResources_def Let_def GetCachedNRTCopy_def IsSet_def GetNRTCopyByNodeName_def
      UpdateNRT_def chargeZone_def chargeResource_def AddPod_def newResourceStore_def
      availableByZone_def snapshot1_def cpu_def unitA_def unitB_def unit_def Delete_def)

lemma roundtrip_store:
  "UpdateNRT (DeletePod (AddPod rs pod) pod) nrt = UpdateNRT rs nrt"
  by (simp add: UpdateNRT_def DeletePod_def AddPod_def)

text \<open>
  C4, as amended: \<open>ReserveNodeResources\<close> followed by \<open>UnreserveNodeResources\<close> for the
  same node and unit restores the answer of \<open>GetCachedNRTCopy\<close> for the node to what it
  was before the reservation; this is the stored snapshot without any overlay when the node
  is not flagged as having foreign workload units and its overlay held no charge before.
\<close>

theorem Reserve_Unreserve_view:
  "GetCachedNRTCopy (UnreserveNodeResources (ReserveNodeResources ov nodeName pod) nodeName pod)
      nodeName reader = GetCachedNRTCopy ov nodeName reader \<and>
   (\<not> IsSet (nodesWithForeignPods ov) nodeName \<and> nrts ov nodeName = Some snapshot \<and>
    (\<forall>r. chargedQuantity ov nodeName r = 0) \<longrightarrow>
      GetCachedNRTCopy (UnreserveNodeResources (ReserveNodeResources ov nodeName pod) nodeName pod)
        nodeName reader = (Some snapshot, True))"
proof -
  have eq: "GetCachedNRTCopy (UnreserveNodeResources (ReserveNodeResources ov nodeName pod) nodeName pod)
      nodeName reader = GetCachedNRTCopy ov nodeName reader"
    by (simp add: GetCachedNRTCopy_def UnreserveNodeResources_def ReserveNodeResources_def Let_def
        roundtrip_store UpdateNRT_no_charges split: option.splits)
  have "GetCachedNRTCopy ov nodeName reader = (Some snapshot, True)"
    if "\<not> IsSet (nodesWithForeignPods ov) nodeName" and "nrts ov nodeName = Some snapshot"
      and z: "\<forall>r. chargedQuantity ov nodeName r = 0"
  proof (cases "assumedResources ov nodeName")
    case None
    with that show ?thesis
      by (simp add: GetCachedNRTCopy_def GetNRTCopyByNodeName_def)
  next
    case (Some rs)
    then have "rs_charges rs = (\<lambda>r. 0)"
      using z by (simp add: chargedQuantity_def fun_eq_iff)
    then have "UpdateNRT rs snapshot = snapshot"
      using UpdateNRT_no_charges [of snapshot]
      by (simp add: UpdateNRT_def newResourceStore_def)
    with that Some show ?thesis
      by (simp add: GetCachedNRTCopy_def GetNRTCopyByNodeName_def)
  qed
  with eq show ?thesis by simp
qed

theorem Reserve_Unreserve_view_witness:
  "\<not> IsSet (nodesWithForeignPods cache1) ''n1'' \<and> nrts cache1 ''n1'' = Some snapshot1 \<and>
   chargedQuantity cache1 ''n1'' ''cpu'' = 0 \<and>
   GetCachedNRTCopy (UnreserveNodeResources (ReserveNodeResources cache1 ''n1'' unitA) ''n1'' unitA)
     ''n1'' unitA = (Some snapshot1, True)"
  using Reserve_Unreserve_view [of cache1 "''n1''" unitA unitA snapshot1, THEN conjunct2]
  by (simp add: cache1_def IsSet_def chargedQuantity_def)

text \<open>
  The claim as first stated fails twice. On a node flagged as having foreign units the copy
  stays withheld after the round trip. On a node that already carries the charge of unit
  \<open>b\<close> (1 cpu) the round trip with unit \<open>a\<close> gives back 5 and 1 available cpus, not the
  stored 6 and 2.
\<close>

theorem Reserve_Unreserve_view_counterexample:
  "nrts foreign1 ''n1'' = Some snapshot1 \<and>
   GetCachedNRTCopy (UnreserveNodeResources (ReserveNodeResources foreign1 ''n1'' unitA) ''n1'' unitA)
     ''n1'' unitA = (None, False) \<and>
   nrts busy1 ''n1'' = Some snapshot1 \<and>
   availableByZone snapshot1 = [[(''cpu'', 6)], [(''cpu'', 2)]] \<and>
   map_option availableByZone
     (fst (GetCachedNRTCopy
        (UnreserveNodeResources (ReserveNodeResources busy1 ''n1'' unitA) ''n1'' unitA)
        ''n1'' unitA)) =
     Some [[(''cpu'', 5)], [(''cpu'', 1)]]"
  by (simp add: foreign1_def busy1_def cache1_def NodeHasForeignPods_def Contains_def Incr_def
      ReserveNodeResources_def UnreserveNodeResources_def Let_def GetCachedNRTCopy_def IsSet_def
      GetNRTCopyByNodeName_def UpdateNRT_def chargeZone_def chargeResource_def AddPod_def
      DeletePod_def podKey_def newResourceStore_def
      availableByZone_def snapshot1_def cpu_def unitA_def unitB_def unit_def Delete_def)

section \<open>Resync\<close>

lemma fold_addPodData:
  "fold (addPodData relevant) pods m nodeName =
     (if liveRoster relevant pods nodeName = [] then m nodeName
      else Some ((case m nodeName of None \<Rightarrow> [] | Some objs \<Rightarrow> objs) @ liveRoster relevant pods nodeName))"
proof (induction pods arbitrary: m)
  case Nil
  then show ?case by (simp add: liveRoster_def)
next
  case (Cons pod pods)
  show ?case
    by (simp add: Cons.IH) (simp add: addPodData_def liveRoster_def Let_def split: option.splits)
qed

lemma makeNodeToPodDataMap_roster:
  "makeNodeToPodDataMap (Inr pods) relevant =
     (\<lambda>nodeName. if liveRoster relevant pods nodeName = [] then None
                  else Some (liveRoster relevant pods nodeName), None)"
  by (simp add: makeNodeToPodDataMap_def fold_addPodData fun_eq_iff)

lemma fold_collect:
  "fold (\<lambda>x acc. case f x of None \<Rightarrow> acc | Some y \<Rightarrow> acc @ [y]) xs acc0 = acc0 @ List.map_filter f xs"
  by (induction xs arbitrary: acc0) (auto simp: List.map_filter_simps split: option.splits)

lemma resyncUpdates_map_filter:
  "resyncUpdates sign ov m nodeNames = List.map_filter (resyncNode sign ov m) nodeNames"
  by (simp add: resyncUpdates_def fold_collect)

lemma Resync_FlushNodes: "Resync sign ov = FlushNodes ov (resyncPending sign ov)"
  by (simp add: Resync_def resyncPending_def FlushNodes_def Let_def split: prod.splits option.splits)

lemma resyncNode_matching:
  "podLister ov = Inr pods \<Longrightarrow>
   resyncNode sign ov (fst (makeNodeToPodDataMap (podLister ov) (isPodRelevant ov))) nodeName =
     matchingSnapshot sign ov nodeName"
  by (simp add: makeNodeToPodDataMap_roster resyncNode_def matchingSnapshot_def Let_def
      split: sum.splits prod.splits option.splits)

lemma set_map_filter: "set (List.map_filter f xs) = {y. \<exists>x \<in> set xs. f x = Some y}"
  by (induction xs) (auto simp: List.map_filter_simps split: option.splits)

lemma set_resyncPending:
  "set (resyncPending sign ov) =
     {c. \<exists>n \<in> set (NodesMaybeOverReserved ov). matchingSnapshot sign ov n = Some c}"
proof (cases "podLister ov")
  case (Inl err)
  then show ?thesis
    by (simp add: resyncPending_def makeNodeToPodDataMap_def matchingSnapshot_def)
next
  case (Inr pods)
  have f: "resyncNode sign ov (fst (makeNodeToPodDataMap (podLister ov) (isPodRelevant ov))) =
      matchingSnapshot sign ov"
    by (rule ext) (rule resyncNode_matching [OF Inr])
  have "resyncPending sign ov =
      List.map_filter (matchingSnapshot sign ov) (NodesMaybeOverReserved ov)"
    using f Inr
    by (simp add: resyncPending_def resyncUpdates_map_filter makeNodeToPodDataMap_roster
        List.map_filter_simps)
  then show ?thesis
    by (simp add: set_map_filter)
qed

lemma matchingSnapshot_fetched:
  "matchingSnapshot sign ov nodeName = Some c \<Longrightarrow> client_Get (client ov) nodeName = Inr c"
  by (auto simp: matchingSnapshot_def Let_def split: sum.splits if_splits)

lemma flushNode_other:
  "nrt_Name c \<noteq> nodeName \<Longrightarrow>
   nrts (flushNode c ov) nodeName = nrts ov nodeName \<and>
   assumedResources (flushNode c ov) nodeName = assumedResources ov nodeName \<and>
   map_of (nodesMaybeOverreserved (flushNode c ov)) nodeName =
     map_of (nodesMaybeOverreserved ov) nodeName \<and>
   map_of (nodesWithForeignPods (flushNode c ov)) nodeName =
     map_of (nodesWithForeignPods ov) nodeName"
  by (simp add: flushNode_def Update_def map_of_Delete)

lemma flushNode_named:
  "nrts (flushNode c ov) (nrt_Name c) = Some c \<and>
   assumedResources (flushNode c ov) (nrt_Name c) = None \<and>
   map_of (nodesMaybeOverreserved (flushNode c ov)) (nrt_Name c) = None \<and>
   map_of (nodesWithForeignPods (flushNode c ov)) (nrt_Name c) = None"
  by (simp add: flushNode_def Update_def map_of_Delete)

lemma FlushNodes_snoc: "FlushNodes ov (updates @ [c]) = flushNode c (FlushNodes ov updates)"
  by (simp add: FlushNodes_def)

lemma FlushNodes_other:
  "nodeName \<notin> nrt_Name ` set updates \<Longrightarrow>
   nrts (FlushNodes ov updates) nodeName = nrts ov nodeName \<and>
   assumedResources (FlushNodes ov updates) nodeName = assumedResources ov nodeName \<and>
   map_of (nodesMaybeOverreserved (FlushNodes ov updates)) nodeName =
     map_of (nodesMaybeOverreserved ov) nodeName \<and>
   map_of (nodesWithForeignPods (FlushNodes ov updates)) nodeName =
     map_of (nodesWithForeignPods ov) nodeName"
proof (induction updates rule: rev_induct)
  case Nil
  then show ?case by (simp add: FlushNodes_def)
next
  case (snoc c updates)
  then have "nrt_Name c \<noteq> nodeName" and "nodeName \<notin> nrt_Name ` set updates"
    by auto
  then show ?case
    using snoc.IH flushNode_other [of c nodeName "FlushNodes ov updates"]
    by (simp add: FlushNodes_snoc)
qed

lemma FlushNodes_named:
  "c \<in> set updates \<Longrightarrow>
   (\<And>d. d \<in> set updates \<Longrightarrow> nrt_Name d = nrt_Name c \<Longrightarrow> d = c) \<Longrightarrow>
   nrts (FlushNodes ov updates) (nrt_Name c) = Some c \<and>
   assumedResources (FlushNodes ov updates) (nrt_Name c) = None \<and>
   map_of (nodesMaybeOverreserved (FlushNodes ov updates)) (nrt_Name c) = None \<and>
   map_of (nodesWithForeignPods (FlushNodes ov updates)) (nrt_Name c) = None"
proof (induction updates rule: rev_induct)
  case Nil
  then show ?case by simp
next
  case (snoc d updates)
  show ?case
  proof (cases "nrt_Name d = nrt_Name c")
    case True
    then have "d = c" using snoc.prems(2) [of d] by simp
    then show ?thesis
      using flushNode_named [of c "FlushNodes ov updates"] by (simp add: FlushNodes_snoc)
  next
    case False
    then have "c \<in> set updates" using snoc.prems(1) by auto
    moreover have "\<And>e. e \<in> set updates \<Longrightarrow> nrt_Name e = nrt_Name c \<Longrightarrow> e = c"
      using snoc.prems(2) by simp
    ultimately show ?thesis
      using snoc.IH flushNode_other [OF False, of "FlushNodes ov updates"]
      by (simp add: FlushNodes_snoc)
  qed
qed

text \<open>
  C2: provided the object store answers a fetch by name with a snapshot of that name, one
  run of \<open>Resync\<close> flushes exactly the dirty nodes with a matching snapshot: for a dirty
  node whose fetched snapshot carries a digest equal to the digest computed over the node's
  live roster, the stored snapshot is replaced by the fetched one, the overlay entry is
  deleted and both counters are cleared; a dirty node without such a snapshot (the
  fingerprint differs, the digest is missing, the fetch fails, the roster is absent or could
  not be listed), like any node that is not dirty, keeps its stored snapshot, its overlay
  entry and both counter entries as they were.
\<close>

theorem Resync_flushes_matching:
  assumes named: "\<forall>n c. client_Get (client ov) n = Inr c \<longrightarrow> nrt_Name c = n"
  shows
    "(nodeName \<in> set (NodesMaybeOverReserved ov) \<and>
      matchingSnapshot sign ov nodeName = Some snapshot \<longrightarrow>
        nrts (Resync sign ov) nodeName = Some snapshot \<and>
        assumedResources (Resync sign ov) nodeName = None \<and>
        \<not> IsSet (nodesMaybeOverreserved (Resync sign ov)) nodeName \<and>
        \<not> IsSet (nodesWithForeignPods (Resync sign ov)) nodeName) \<and>
     (nodeName \<notin> set (NodesMaybeOverReserved ov) \<or>
      matchingSnapshot sign ov nodeName = None \<longrightarrow>
        nrts (Resync sign ov) nodeName = nrts ov nodeName \<and>
        assumedResources (Resync sign ov) nodeName = assumedResources ov nodeName \<and>
        map_of (nodesMaybeOverreserved (Resync sign ov)) nodeName =
          map_of (nodesMaybeOverreserved ov) nodeName \<and>
        map_of (nodesWithForeignPods (Resync sign ov)) nodeName =
          map_of (nodesWithForeignPods ov) nodeName)"
proof (intro conjI impI)
  have name_of: "nrt_Name c = n" if "matchingSnapshot sign ov n = Some c" for n c
    using named matchingSnapshot_fetched [OF that] by simp
  {
    assume a: "nodeName \<in> set (NodesMaybeOverReserved ov) \<and>
      matchingSnapshot sign ov nodeName = Some snapshot"
    then have mem: "snapshot \<in> set (resyncPending sign ov)"
      by (auto simp: set_resyncPending)
    have nm: "nrt_Name snapshot = nodeName"
      using a name_of by simp
    have uniq: "d = snapshot"
      if d1: "d \<in> set (resyncPending sign ov)" and d2: "nrt_Name d = nrt_Name snapshot" for d
    proof -
      obtain n where "matchingSnapshot sign ov n = Some d"
        using d1 by (auto simp: set_resyncPending)
      moreover from this have "n = nodeName"
        using name_of d2 nm by simp
      ultimately show ?thesis using a by simp
    qed
    have r: "nrts (Resync sign ov) nodeName = Some snapshot \<and>
      assumedResources (Resync sign ov) nodeName = None \<and>
      map_of (nodesMaybeOverreserved (Resync sign ov)) nodeName = None \<and>
      map_of (nodesWithForeignPods (Resync sign ov)) nodeName = None"
      using FlushNodes_named [OF mem uniq, of ov] nm by (simp add: Resync_FlushNodes)
    show "nrts (Resync sign ov) nodeName = Some snapshot" using r by simp
    show "assumedResources (Resync sign ov) nodeName = None" using r by simp
    show "\<not> IsSet (nodesMaybeOverreserved (Resync sign ov)) nodeName"
      using r by (simp add: IsSet_iff)
    show "\<not> IsSet (nodesWithForeignPods (Resync sign ov)) nodeName"
      using r by (simp add: IsSet_iff)
  }
  {
    assume b: "nodeName \<notin> set (NodesMaybeOverReserved ov) \<or>
      matchingSnapshot sign ov nodeName = None"
    have "nodeName \<notin> nrt_Name ` set (resyncPending sign ov)"
    proof
      assume "nodeName \<in> nrt_Name ` set (resyncPending sign ov)"
      then obtain d n where "n \<in> set (NodesMaybeOverReserved ov)"
        and "matchingSnapshot sign ov n = Some d" and "nodeName = nrt_Name d"
        by (auto simp: set_resyncPending)
      then show False using b name_of by auto
    qed
    from FlushNodes_other [OF this, of ov]
    have r: "nrts (Resync sign ov) nodeName = nrts ov nodeName \<and>
      assumedResources (Resync sign ov) nodeName = assumedResources ov nodeName \<and>
      map_of (nodesMaybeOverreserved (Resync sign ov)) nodeName =
        map_of (nodesMaybeOverreserved ov) nodeName \<and>
      map_of (nodesWithForeignPods (Resync sign ov)) nodeName =
        map_of (nodesWithForeignPods ov) nodeName"
      by (simp add: Resync_FlushNodes)
    show "nrts (Resync sign ov) nodeName = nrts ov nodeName" using r by simp
    show "assumedResources (Resync sign ov) nodeName = assumedResources ov nodeName" using r by simp
    show "map_of (nodesMaybeOverreserved (Resync sign ov)) nodeName =
        map_of (nodesMaybeOverreserved ov) nodeName" using r by simp
    show "map_of (nodesWithForeignPods (Resync sign ov)) nodeName =
        map_of (nodesWithForeignPods ov) nodeName" using r by simp
  }
qed

theorem Resync_flushes_matching_witness:
  "''n1'' \<in> set (NodesMaybeOverReserved dirty1) \<and>
   assumedResources dirty1 ''n1'' \<noteq> None \<and>
   matchingSnapshot signNames dirty1 ''n1'' = Some snapshot1 \<and>
   nrts (Resync signNames dirty1) ''n1'' = Some snapshot1 \<and>
   assumedResources (Resync signNames dirty1) ''n1'' = None \<and>
   \<not> IsSet (nodesMaybeOverreserved (Resync signNames dirty1)) ''n1'' \<and>
   \<not> IsSet (nodesWithForeignPods (Resync signNames dirty1)) ''n1'' \<and>
   ''n1'' \<in> set (NodesMaybeOverReserved dirty2) \<and>
   matchingSnapshot signNames dirty2 ''n1'' = None \<and>
   assumedResources (Resync signNames dirty2) ''n1'' = assumedResources dirty2 ''n1'' \<and>
   map_of (nodesMaybeOverreserved (Resync signNames dirty2)) ''n1'' = Some 1"
proof -
  have named1: "\<forall>n c. client_Get (client dirty1) n = Inr c \<longrightarrow> nrt_Name c = n"
    by (simp add: dirty1_def NodeMaybeOverReserved_def ReserveNodeResources_def Let_def
        cache1_def store1_def snapshot1_def)
  have named2: "\<forall>n c. client_Get (client dirty2) n = Inr c \<longrightarrow> nrt_Name c = n"
    using named1 by (simp add: dirty2_def)
  have d1: "''n1'' \<in> set (NodesMaybeOverReserved dirty1)"
    by (simp add: set_NodesMaybeOverReserved dirty1_def NodeMaybeOverReserved_def Keys_Incr)
  have d2: "''n1'' \<in> set (NodesMaybeOverReserved dirty2)"
    by (simp add: set_NodesMaybeOverReserved dirty2_def dirty1_def NodeMaybeOverReserved_def Keys_Incr)
  have o1: "assumedResources dirty1 ''n1'' \<noteq> None"
    by (simp add: dirty1_def NodeMaybeOverReserved_def ReserveNodeResources_def Let_def)
  have c2: "map_of (nodesMaybeOverreserved dirty2) ''n1'' = Some 1"
    by (simp add: dirty2_def dirty1_def NodeMaybeOverReserved_def ReserveNodeResources_def
        Let_def cache1_def Incr_def Delete_def)
  have m1: "matchingSnapshot signNames dirty1 ''n1'' = Some snapshot1"
    by (simp add: matchingSnapshot_def dirty1_def NodeMaybeOverReserved_def
        ReserveNodeResources_def Let_def cache1_def store1_def liveRoster_def toPodData_def
        podFingerprintForNodeTopology_def checkPodFingerprintForNode_def signNames_def
        snapshot1_def unitA_def unitB_def unit_def)
  have m2: "matchingSnapshot signNames dirty2 ''n1'' = None"
    by (simp add: matchingSnapshot_def dirty2_def dirty1_def NodeMaybeOverReserved_def
        ReserveNodeResources_def Let_def cache1_def store1_def liveRoster_def toPodData_def
        podFingerprintForNodeTopology_def checkPodFingerprintForNode_def signNames_def
        snapshot1_def unitA_def unitB_def unitC_def unit_def)
  show ?thesis
    using d1 d2 o1 c2 m1 m2
      Resync_flushes_matching [OF named1, of "''n1''" signNames snapshot1]
      Resync_flushes_matching [OF named2, of "''n1''" signNames snapshot1]
    by simp
qed

text \<open>
  C5: when there are dirty nodes and the listing of the workload units fails, \<open>Resync\<close>
  returns the cache state it was given: no node is flushed, and the topology store, the
  overlay store and both counters are as before the call.
\<close>

theorem Resync_listing_failure:
  "NodesMaybeOverReserved ov \<noteq> [] \<Longrightarrow> podLister ov = Inl err \<Longrightarrow> Resync sign ov = ov"
  by (simp add: Resync_def makeNodeToPodDataMap_def)

theorem Resync_listing_failure_witness:
  "NodesMaybeOverReserved dirty3 \<noteq> [] \<and> podLister dirty3 = Inl (ErrExternal ''lister down'') \<and>
   Resync signNames dirty3 = dirty3"
proof -
  have "''n1'' \<in> set (NodesMaybeOverReserved dirty3)"
    by (simp add: set_NodesMaybeOverReserved dirty3_def dirty1_def NodeMaybeOverReserved_def Keys_Incr)
  then have a: "NodesMaybeOverReserved dirty3 \<noteq> []" by auto
  have b: "podLister dirty3 = Inl (ErrExternal ''lister down'')"
    by (simp add: dirty3_def)
  show ?thesis
    using a b Resync_listing_failure [OF a b, of signNames] by simp
qed

section \<open>The keys of the overlay store\<close>

lemma dom_flushNode:
  "dom (assumedResources (flushNode c ov)) = dom (assumedResources ov) - {nrt_Name c}"
  by (auto simp: flushNode_def split: if_splits)

lemma dom_FlushNodes:
  "dom (assumedResources (FlushNodes ov updates)) =
     dom (assumedResources ov) - nrt_Name ` set updates"
proof (induction updates rule: rev_induct)
  case Nil
  then show ?case by (simp add: FlushNodes_def)
next
  case (snoc c updates)
  then show ?case
    by (auto simp: FlushNodes_snoc dom_flushNode)
qed

lemma dom_applyCall:
  "dom (assumedResources (applyCall c ov)) = reservedAfter c ov (dom (assumedResources ov))"
proof (cases c)
  case (CallReserveNodeResources nodeName pod)
  then show ?thesis by (simp add: ReserveNodeResources_def Let_def)
next
  case (CallUnreserveNodeResources nodeName pod)
  then show ?thesis
    by (auto simp: UnreserveNodeResources_def split: option.splits)
next
  case (CallFlushNodes updates)
  then show ?thesis by (simp add: dom_FlushNodes)
next
  case (CallResync sign cl l)
  then show ?thesis by (simp add: Resync_FlushNodes dom_FlushNodes)
next
  case (CallNodeHasForeignPods nodeName pod)
  then show ?thesis by (simp add: NodeHasForeignPods_def)
qed (simp_all add: NodeMaybeOverReserved_def PostBind_def)

lemma dom_runCalls:
  "runCalls calls (ov, reserved) = (ov', reserved') \<Longrightarrow>
   dom (assumedResources ov) = reserved \<Longrightarrow> dom (assumedResources ov') = reserved'"
proof (induction calls arbitrary: ov reserved)
  case Nil
  then show ?case by simp
next
  case (Cons c calls)
  show ?case
  proof (rule Cons.IH)
    show "runCalls calls (applyCall c ov, reservedAfter c ov reserved) = (ov', reserved')"
      using Cons.prems(1) by simp
    show "dom (assumedResources (applyCall c ov)) = reservedAfter c ov reserved"
      using Cons.prems(2) by (simp add: dom_applyCall)
  qed
qed

lemma NewOverReserve_empty:
  "NewOverReserve cfg cl pl relevant = Inr ov0 \<Longrightarrow> assumedResources ov0 = Map.empty"
  by (auto simp: NewOverReserve_def split: option.splits sum.splits)

text \<open>
  C9, as amended: in every state reached from a newly built cache by any sequence of the
  public operations, a node name is a key of the resource overlay store exactly when
  \<open>ReserveNodeResources\<close> was called for the node since the node was last flushed (by
  \<open>FlushNodes\<close> or by \<open>Resync\<close>), or since the start when it never was.
  \<open>UnreserveNodeResources\<close> never removes a key.
\<close>

theorem overlay_keys_reserved_since_flush:
  assumes "NewOverReserve cfg cl pl relevant = Inr ov0"
    and "runCalls calls (ov0, {}) = (ov, reserved)"
  shows "nodeName \<in> dom (assumedResources ov) \<longleftrightarrow> nodeName \<in> reserved"
  using dom_runCalls [OF assms(2)] NewOverReserve_empty [OF assms(1)] by simp

lemma NewOverReserve_cache1:
  "NewOverReserve None (Some store1) (Some (Inr [unitA, unitB])) (\<lambda>pod. True) = Inr cache1"
  by (simp add: NewOverReserve_def store1_def cache1_def newNrtStore_def newCounter_def
      getCacheResyncMethod_def snapshot1_def)

theorem overlay_keys_reserved_since_flush_witness:
  "NewOverReserve None (Some store1) (Some (Inr [unitA, unitB])) (\<lambda>pod. True) = Inr cache1 \<and>
   snd (runCalls [CallReserveNodeResources ''n1'' unitA,
                  CallUnreserveNodeResources ''n1'' unitA,
                  CallReserveNodeResources ''n2'' unitB,
                  CallFlushNodes [snapshot1]] (cache1, {})) = {''n2''} \<and>
   dom (assumedResources
     (fst (runCalls [CallReserveNodeResources ''n1'' unitA,
                     CallUnreserveNodeResources ''n1'' unitA,
                     CallReserveNodeResources ''n2'' unitB,
                     CallFlushNodes [snapshot1]] (cache1, {})))) = {''n2''}"
proof -
  let ?calls = "[CallReserveNodeResources ''n1'' unitA,
                  CallUnreserveNodeResources ''n1'' unitA,
                  CallReserveNodeResources ''n2'' unitB,
                  CallFlushNodes [snapshot1]]"
  have r: "snd (runCalls ?calls (cache1, {})) = {''n2''}"
    by (auto simp: snapshot1_def)
  have "runCalls ?calls (cache1, {}) = (fst (runCalls ?calls (cache1, {})), {''n2''})"
    using r by (metis prod.collapse)
  from overlay_keys_reserved_since_flush [OF NewOverReserve_cache1 this]
  have "dom (assumedResources (fst (runCalls ?calls (cache1, {})))) = {''n2''}"
    by blast
  with r NewOverReserve_cache1 show ?thesis by simp
qed

text \<open>
  The claim as first stated fails: after unit \<open>a\<close> is reserved on \<open>n1\<close> and unreserved
  again, \<open>n1\<close> is still a key of the overlay store although no reservation is outstanding
  for it.
\<close>

theorem overlay_keys_outstanding_counterexample:
  "NewOverReserve None (Some store1) (Some (Inr [unitA, unitB])) (\<lambda>pod. True) = Inr cache1 \<and>
   assumedResources
     (fst (runCalls [CallReserveNodeResources ''n1'' unitA,
                     CallUnreserveNodeResources ''n1'' unitA] (cache1, {}))) ''n1'' \<noteq> None \<and>
   outstandingUnits
     (fst (runCalls [CallReserveNodeResources ''n1'' unitA,
                     CallUnreserveNodeResources ''n1'' unitA] (cache1, {}))) ''n1'' = {}"
  by (simp add: NewOverReserve_cache1 outstandingUnits_def ReserveNodeResources_def
      UnreserveNodeResources_def Let_def cache1_def AddPod_def DeletePod_def newResourceStore_def)

end
